theory Spec2Isabelle
  imports Main
begin

section \<open>Frontend audit client (audit.ts)\<close>

text \<open>
  A shallow embedding of \<^verbatim>\<open>src/smsly-rust/smsly-services/src/audit/frontend/audit.ts\<close>:
  the class \<^verbatim>\<open>AuditClient\<close>, its method \<^verbatim>\<open>logEvent\<close> and the five convenience
  methods. The JavaScript platform functions the file calls (\<^verbatim>\<open>JSON.stringify\<close>,
  \<^verbatim>\<open>fetch\<close>, \<^verbatim>\<open>new Date().toISOString()\<close>, \<^verbatim>\<open>console.error\<close>) are not code of the
  file; they are modelled as far as \<^verbatim>\<open>logEvent\<close> observes them.
\<close>

subsection \<open>JavaScript values\<close>

text \<open>
  The values a \<^verbatim>\<open>Record<string, any>\<close> can hold. Numbers are kept to the integers
  (floating point is outside the model); an object is the list of its own properties in
  insertion order. \<^verbatim>\<open>JUndefined\<close> is the value of an absent optional argument used as a
  property value, as in \<^verbatim>\<open>{ ip }\<close>.
\<close>

datatype jsvalue =
    JUndefined
  | JNull
  | JBool bool
  | JNum int
  | JStr string
  | JBigInt int
  | JArr "jsvalue list"
  | JObj "(string \<times> jsvalue) list"

text \<open>A thrown value: a rejected promise carries one of these.\<close>

datatype js_error = TypeError string | DOMException string

text \<open>
  The document a call of \<^verbatim>\<open>JSON.stringify\<close> denotes. The concrete text (spacing, string
  escapes, number formatting) is not modelled.
\<close>

datatype json =
    JsonNull
  | JsonBool bool
  | JsonNum int
  | JsonStr string
  | JsonArr "json list"
  | JsonObj "(string \<times> json) list"

text \<open>
  \<^verbatim>\<open>JSON.stringify\<close> visits every property and element; reaching a BigInt it throws a
  TypeError.
\<close>

fun has_bigint :: "jsvalue \<Rightarrow> bool"
  and has_bigint_list :: "jsvalue list \<Rightarrow> bool"
  and has_bigint_props :: "(string \<times> jsvalue) list \<Rightarrow> bool" where
  "has_bigint (JBigInt n) = True"
| "has_bigint (JArr vs) = has_bigint_list vs"
| "has_bigint (JObj kvs) = has_bigint_props kvs"
| "has_bigint JUndefined = False"
| "has_bigint JNull = False"
| "has_bigint (JBool b) = False"
| "has_bigint (JNum n) = False"
| "has_bigint (JStr s) = False"
| "has_bigint_list [] = False"
| "has_bigint_list (v # vs) = (has_bigint v \<or> has_bigint_list vs)"
| "has_bigint_props [] = False"
| "has_bigint_props (kv # kvs) = (has_bigint (snd kv) \<or> has_bigint_props kvs)"

text \<open>
  The serialisation of a value that holds no BigInt: \<^verbatim>\<open>undefined\<close> has none
  (\<open>None\<close>); a property whose value has none is left out of its object; an element
  that has none is written \<^verbatim>\<open>null\<close> in its array.
\<close>

fun to_json :: "jsvalue \<Rightarrow> json option"
  and to_json_list :: "jsvalue list \<Rightarrow> json list"
  and to_json_props :: "(string \<times> jsvalue) list \<Rightarrow> (string \<times> json) list" where
  "to_json JUndefined = None"
| "to_json JNull = Some JsonNull"
| "to_json (JBool b) = Some (JsonBool b)"
| "to_json (JNum n) = Some (JsonNum n)"
| "to_json (JStr s) = Some (JsonStr s)"
| "to_json (JBigInt n) = None"  \<comment> \<open>not reached: \<open>JSON_stringify\<close> has thrown\<close>
| "to_json (JArr vs) = Some (JsonArr (to_json_list vs))"
| "to_json (JObj kvs) = Some (JsonObj (to_json_props kvs))"
| "to_json_list [] = []"
| "to_json_list (v # vs) =
     (case to_json v of None \<Rightarrow> JsonNull | Some j \<Rightarrow> j) # to_json_list vs"
| "to_json_props [] = []"
| "to_json_props (kv # kvs) =
     (case to_json (snd kv) of
        None \<Rightarrow> to_json_props kvs
      | Some j \<Rightarrow> (fst kv, j) # to_json_props kvs)"

definition JSON_stringify :: "jsvalue \<Rightarrow> js_error + json option" where
  "JSON_stringify v =
     (if has_bigint v then Inl (TypeError ''Do not know how to serialize a BigInt'')
      else Inr (to_json v))"

subsection \<open>HTTP, clock and console\<close>

record http_request =
  url :: string
  http_method :: string
  headers :: "(string \<times> string) list"
  body :: "json option"

record http_response =
  status :: nat
  response_body :: string

text \<open>The getter \<^verbatim>\<open>Response.ok\<close> of the Fetch API: the status is in 200..299.\<close>

definition ok :: "http_response \<Rightarrow> bool" where
  "ok response = (200 \<le> status response \<and> status response \<le> 299)"

text \<open>
  What a call reads from its surroundings: the instant \<^verbatim>\<open>new Date().toISOString()\<close>
  returns, and how the network answers a request: with a response, or by rejecting the
  promise (connection error, abort).
\<close>

record platform =
  now :: string
  fetch :: "http_request \<Rightarrow> js_error + http_response"

text \<open>What a call does to its surroundings, in order.\<close>

datatype effect =
    Fetch http_request
  | ConsoleError string js_error

subsection \<open>The interface AuditEvent and the class AuditClient\<close>

datatype outcome_t = Success | Failure | Blocked

text \<open>An optional property is \<open>None\<close> when it is absent (or \<^verbatim>\<open>undefined\<close>).\<close>

record AuditEvent =
  event_type :: string
  action :: string
  actor_id :: "string option"
  resource_type :: "string option"
  resource_id :: "string option"
  outcome :: "outcome_t option"
  category :: "string option"
  severity :: "string option"
  payload :: "(string \<times> jsvalue) list option"

record AuditClient =
  gatewayUrl :: string
  serviceName :: string

text \<open>
  \<^verbatim>\<open>x || d\<close> on an optional string: \<^verbatim>\<open>undefined\<close> and the empty string are falsy, every
  other string is truthy.
\<close>

definition truthy :: "string option \<Rightarrow> bool" where
  "truthy x = (case x of None \<Rightarrow> False | Some s \<Rightarrow> s \<noteq> [])"

definition or_else :: "string option \<Rightarrow> string \<Rightarrow> string" where
  "or_else x d = (case x of None \<Rightarrow> d | Some s \<Rightarrow> if s \<noteq> [] then s else d)"

text \<open>The constructor, lines 26-29; the argument is \<^verbatim>\<open>process.env\<close>.\<close>

definition new_AuditClient :: "(string \<Rightarrow> string option) \<Rightarrow> AuditClient" where
  "new_AuditClient env =
     \<lparr> gatewayUrl = or_else (env ''NEXT_PUBLIC_GATEWAY_URL'') ''http://localhost:8000'',
       serviceName = or_else (env ''NEXT_PUBLIC_SERVICE_NAME'') ''smsly-frontend'' \<rparr>"

text \<open>The object literal of lines 34-46, before it is serialised.\<close>

record envelope =
  env_service :: string
  env_event_type :: string
  env_event_category :: string
  env_severity :: string
  env_action :: string
  env_actor_id :: string
  env_actor_type :: string
  env_resource_type :: "string option"
  env_resource_id :: "string option"
  env_outcome :: outcome_t
  env_payload :: "(string \<times> jsvalue) list"

text \<open>
  The three outcomes are non-empty strings and an object is truthy, so \<^verbatim>\<open>||\<close> on
  \<^verbatim>\<open>outcome\<close> and \<^verbatim>\<open>payload\<close> takes the default only when the property is absent.
\<close>

definition build_envelope :: "AuditClient \<Rightarrow> AuditEvent \<Rightarrow> envelope" where
  "build_envelope this event =
     \<lparr> env_service = serviceName this,
       env_event_type = event_type event,
       env_event_category = or_else (category event) ''general'',
       env_severity = or_else (severity event) ''info'',
       env_action = action event,
       env_actor_id = or_else (actor_id event) ''anonymous'',
       env_actor_type = (if truthy (actor_id event) then ''user'' else ''system''),
       env_resource_type = resource_type event,
       env_resource_id = resource_id event,
       env_outcome = (case outcome event of None \<Rightarrow> Success | Some oc \<Rightarrow> oc),
       env_payload = (case payload event of None \<Rightarrow> [] | Some p \<Rightarrow> p) \<rparr>"

definition outcome_string :: "outcome_t \<Rightarrow> string" where
  "outcome_string oc =
     (case oc of Success \<Rightarrow> ''success'' | Failure \<Rightarrow> ''failure'' | Blocked \<Rightarrow> ''blocked'')"

definition opt_string :: "string option \<Rightarrow> jsvalue" where
  "opt_string x = (case x of None \<Rightarrow> JUndefined | Some s \<Rightarrow> JStr s)"

text \<open>The envelope as the JavaScript object handed to \<^verbatim>\<open>JSON.stringify\<close>.\<close>

definition envelope_object :: "envelope \<Rightarrow> jsvalue" where
  "envelope_object e =
     JObj [ (''service'', JStr (env_service e)),
            (''event_type'', JStr (env_event_type e)),
            (''event_category'', JStr (env_event_category e)),
            (''severity'', JStr (env_severity e)),
            (''action'', JStr (env_action e)),
            (''actor_id'', JStr (env_actor_id e)),
            (''actor_type'', JStr (env_actor_type e)),
            (''resource_type'', opt_string (env_resource_type e)),
            (''resource_id'', opt_string (env_resource_id e)),
            (''outcome'', JStr (outcome_string (env_outcome e))),
            (''payload'', JObj (env_payload e)) ]"

text \<open>The request of lines 49-57.\<close>

definition audit_request :: "AuditClient \<Rightarrow> string \<Rightarrow> json option \<Rightarrow> http_request" where
  "audit_request this timestamp b =
     \<lparr> url = gatewayUrl this @ ''/api/v1/audit/events'',
       http_method = ''POST'',
       headers = [ (''Content-Type'', ''application/json''),
                   (''X-Service-Name'', serviceName this),
                   (''X-Service-Timestamp'', timestamp) ],
       body = b \<rparr>"

text \<open>
  \<^verbatim>\<open>logEvent\<close>, lines 31-64. The result is the list of effects and how the promise
  settles: \<open>Inr b\<close> when it resolves to the boolean \<open>b\<close>, \<open>Inl err\<close> when it rejects.
  The timestamp and the body are computed before the \<^verbatim>\<open>try\<close> block is entered, so an
  exception of \<^verbatim>\<open>JSON.stringify\<close> leaves the function; an exception of \<^verbatim>\<open>fetch\<close> is
  caught, reported with \<^verbatim>\<open>console.error\<close> and turned into \<^verbatim>\<open>false\<close>.
\<close>

definition logEvent ::
  "AuditClient \<Rightarrow> platform \<Rightarrow> AuditEvent \<Rightarrow> effect list \<times> (js_error + bool)" where
  "logEvent this p event =
     (let timestamp = now p in
      case JSON_stringify (envelope_object (build_envelope this event)) of
        Inl err \<Rightarrow> ([], Inl err)
      | Inr b \<Rightarrow>
          (let request = audit_request this timestamp b in
           case fetch p request of
             Inr response \<Rightarrow> ([Fetch request], Inr (ok response))
           | Inl error \<Rightarrow>
               ([Fetch request, ConsoleError ''Audit failed:'' error], Inr False)))"

subsection \<open>Convenience methods\<close>

text \<open>
  Each builds an \<^verbatim>\<open>AuditEvent\<close> literal and returns \<^verbatim>\<open>this.logEvent\<close> of it. A property
  the literal does not mention is absent. \<^verbatim>\<open>statusCode\<close> is an integer here.
\<close>

definition pageView_event :: "string \<Rightarrow> string option \<Rightarrow> AuditEvent" where
  "pageView_event page userId =
     \<lparr> event_type = ''page.view'',
       action = ''view'',
       actor_id = userId,
       resource_type = Some ''page'',
       resource_id = Some page,
       outcome = None,
       category = Some ''general'',
       severity = None,
       payload = None \<rparr>"

definition logPageView ::
  "AuditClient \<Rightarrow> platform \<Rightarrow> string \<Rightarrow> string option \<Rightarrow> effect list \<times> (js_error + bool)" where
  "logPageView this p page userId = logEvent this p (pageView_event page userId)"

definition userAction_event ::
  "string \<Rightarrow> string \<Rightarrow> (string \<times> jsvalue) list option \<Rightarrow> AuditEvent" where
  "userAction_event act userId details =
     \<lparr> event_type = ''user.'' @ act,
       action = act,
       actor_id = Some userId,
       resource_type = None,
       resource_id = None,
       outcome = None,
       category = Some ''general'',
       severity = None,
       payload = details \<rparr>"

definition logUserAction ::
  "AuditClient \<Rightarrow> platform \<Rightarrow> string \<Rightarrow> string \<Rightarrow> (string \<times> jsvalue) list option
     \<Rightarrow> effect list \<times> (js_error + bool)" where
  "logUserAction this p act userId details =
     logEvent this p (userAction_event act userId details)"

definition login_event :: "string \<Rightarrow> bool \<Rightarrow> string option \<Rightarrow> AuditEvent" where
  "login_event userId success ip =
     \<lparr> event_type = ''auth.login'',
       action = ''login'',
       actor_id = Some userId,
       resource_type = None,
       resource_id = None,
       outcome = Some (if success then Success else Failure),
       category = Some ''auth'',
       severity = Some (if success then ''info'' else ''warning''),
       payload = Some [(''ip'', opt_string ip)] \<rparr>"

definition logLogin ::
  "AuditClient \<Rightarrow> platform \<Rightarrow> string \<Rightarrow> bool \<Rightarrow> string option
     \<Rightarrow> effect list \<times> (js_error + bool)" where
  "logLogin this p userId success ip = logEvent this p (login_event userId success ip)"

definition apiCall_event :: "string \<Rightarrow> string \<Rightarrow> int \<Rightarrow> string option \<Rightarrow> AuditEvent" where
  "apiCall_event endpoint method statusCode userId =
     \<lparr> event_type = ''api.call'',
       action = method @ '' '' @ endpoint,
       actor_id = userId,
       resource_type = Some ''api'',
       resource_id = Some endpoint,
       outcome = Some (if statusCode < 400 then Success else Failure),
       category = None,
       severity = None,
       payload = Some [(''status_code'', JNum statusCode)] \<rparr>"

definition logApiCall ::
  "AuditClient \<Rightarrow> platform \<Rightarrow> string \<Rightarrow> string \<Rightarrow> int \<Rightarrow> string option
     \<Rightarrow> effect list \<times> (js_error + bool)" where
  "logApiCall this p endpoint method statusCode userId =
     logEvent this p (apiCall_event endpoint method statusCode userId)"

text \<open>
  \<^verbatim>\<open>{ error, ...context }\<close>: the properties of \<^verbatim>\<open>context\<close> are assigned in order after
  \<^verbatim>\<open>error\<close>; assigning an existing key keeps its position and replaces its value.
\<close>

fun assign :: "(string \<times> jsvalue) list \<Rightarrow> string \<Rightarrow> jsvalue \<Rightarrow> (string \<times> jsvalue) list" where
  "assign [] k v = [(k, v)]"
| "assign (p # ps) k v = (if fst p = k then (k, v) # ps else p # assign ps k v)"

fun spread :: "(string \<times> jsvalue) list \<Rightarrow> (string \<times> jsvalue) list \<Rightarrow> (string \<times> jsvalue) list" where
  "spread obj [] = obj"
| "spread obj (kv # kvs) = spread (assign obj (fst kv) (snd kv)) kvs"

definition error_event :: "string \<Rightarrow> (string \<times> jsvalue) list option \<Rightarrow> AuditEvent" where
  "error_event err ctx =
     \<lparr> event_type = ''error.client'',
       action = ''error'',
       actor_id = None,
       resource_type = None,
       resource_id = None,
       outcome = Some Failure,
       category = Some ''security'',
       severity = Some ''error'',
       payload = Some (spread [(''error'', JStr err)] (case ctx of None \<Rightarrow> [] | Some kvs \<Rightarrow> kvs)) \<rparr>"

definition logError ::
  "AuditClient \<Rightarrow> platform \<Rightarrow> string \<Rightarrow> (string \<times> jsvalue) list option
     \<Rightarrow> effect list \<times> (js_error + bool)" where
  "logError this p err ctx = logEvent this p (error_event err ctx)"

subsection \<open>Observations and fixed surroundings\<close>

text \<open>The requests handed to \<^verbatim>\<open>fetch\<close>, in order.\<close>

fun sent :: "effect list \<Rightarrow> http_request list" where
  "sent [] = []"
| "sent (Fetch request # es) = request # sent es"
| "sent (ConsoleError msg err # es) = sent es"

text \<open>
  The exported \<^verbatim>\<open>auditClient\<close> when neither environment variable is set, three networks
  (a gateway answering 201, one answering 500, one that cannot be reached) and a clock
  reading, for evaluating the model at concrete inputs.
\<close>

definition default_client :: AuditClient where
  "default_client =
     \<lparr> gatewayUrl = ''http://localhost:8000'', serviceName = ''smsly-frontend'' \<rparr>"

definition gateway_201 :: "http_request \<Rightarrow> js_error + http_response" where
  "gateway_201 request = Inr \<lparr> status = 201, response_body = [] \<rparr>"

definition gateway_500 :: "http_request \<Rightarrow> js_error + http_response" where
  "gateway_500 request = Inr \<lparr> status = 500, response_body = [] \<rparr>"

definition gateway_unreachable :: "http_request \<Rightarrow> js_error + http_response" where
  "gateway_unreachable request = Inl (TypeError ''Failed to fetch'')"

definition at_noon :: "(http_request \<Rightarrow> js_error + http_response) \<Rightarrow> platform" where
  "at_noon network = \<lparr> now = ''2024-01-01T12:00:00.000Z'', fetch = network \<rparr>"

section \<open>Properties\<close>

subsection \<open>Auxiliary facts\<close>

lemma or_else_simps:
  "or_else None d = d"
  "or_else (Some []) d = d"
  "s \<noteq> [] \<Longrightarrow> or_else (Some s) d = s"
  by (simp_all add: or_else_def)

lemma truthy_simps:
  "truthy None = False"
  "truthy (Some s) = (s \<noteq> [])"
  by (simp_all add: truthy_def)

lemma new_AuditClient_default: "new_AuditClient (\<lambda>name. None) = default_client"
  by (simp add: new_AuditClient_def default_client_def or_else_simps)

text \<open>Only the payload can make the envelope unserialisable.\<close>

lemma has_bigint_envelope:
  "has_bigint (envelope_object (build_envelope this event)) =
     (case payload event of None \<Rightarrow> False | Some kvs \<Rightarrow> has_bigint_props kvs)"
  by (simp add: envelope_object_def build_envelope_def opt_string_def
      split: option.splits)

lemma logEvent_serializable:
  assumes "\<not> has_bigint (envelope_object (build_envelope this event))"
  shows "logEvent this p event =
     (let request = audit_request this (now p)
            (to_json (envelope_object (build_envelope this event))) in
      case fetch p request of
        Inr response \<Rightarrow> ([Fetch request], Inr (ok response))
      | Inl error \<Rightarrow> ([Fetch request, ConsoleError ''Audit failed:'' error], Inr False))"
  using assms by (simp add: logEvent_def JSON_stringify_def Let_def)

lemma logEvent_unserializable:
  assumes "has_bigint (envelope_object (build_envelope this event))"
  shows "logEvent this p event =
     ([], Inl (TypeError ''Do not know how to serialize a BigInt''))"
  using assms by (simp add: logEvent_def JSON_stringify_def)

text \<open>
  The part of the non-throwing contract the code keeps: once the body exists, the promise
  resolves to a boolean, and a rejection of \<^verbatim>\<open>fetch\<close> is reported and becomes \<^verbatim>\<open>false\<close>.
\<close>

lemma logEvent_resolves:
  assumes "\<not> has_bigint (envelope_object (build_envelope this event))"
  shows "\<exists>b. snd (logEvent this p event) = Inr b"
  using assms by (auto simp add: logEvent_serializable Let_def split: sum.splits)

lemma logEvent_catches_fetch:
  assumes "\<not> has_bigint (envelope_object (build_envelope this event))"
    and "fetch p (audit_request this (now p)
           (to_json (envelope_object (build_envelope this event)))) = Inl err"
  shows "logEvent this p event =
     ([Fetch (audit_request this (now p)
          (to_json (envelope_object (build_envelope this event)))),
       ConsoleError ''Audit failed:'' err], Inr False)"
  using assms by (simp add: logEvent_serializable Let_def)

lemma logPageView_resolves: "\<exists>b. snd (logPageView this p page userId) = Inr b"
  unfolding logPageView_def
  by (rule logEvent_resolves) (simp add: has_bigint_envelope pageView_event_def)

lemma logLogin_resolves: "\<exists>b. snd (logLogin this p userId success ip) = Inr b"
  unfolding logLogin_def
  by (rule logEvent_resolves)
    (simp add: has_bigint_envelope login_event_def opt_string_def split: option.splits)

lemma logApiCall_resolves:
  "\<exists>b. snd (logApiCall this p endpoint method statusCode userId) = Inr b"
  unfolding logApiCall_def
  by (rule logEvent_resolves) (simp add: has_bigint_envelope apiCall_event_def)

subsection \<open>The envelope\<close>

text \<open>
  C1 (as amended). \<^verbatim>\<open>logEvent\<close> tests \<^verbatim>\<open>event.actor_id\<close> for truthiness, twice, on the
  request itself. When the request's \<^verbatim>\<open>actor_id\<close> is present and not the empty string, the
  envelope has that \<^verbatim>\<open>actor_id\<close> and \<^verbatim>\<open>actor_type\<close> "user"; when it is absent or the empty
  string, the envelope has \<^verbatim>\<open>actor_id\<close> "anonymous" and \<^verbatim>\<open>actor_type\<close> "system" (although
  the defaulted field "anonymous" is itself a non-empty string). Both envelope fields are
  determined by the request's \<^verbatim>\<open>actor_id\<close> alone.
\<close>

theorem actor_derivation:
  "(actor_id event = Some a \<and> a \<noteq> [] \<longrightarrow>
      env_actor_id (build_envelope this event) = a \<and>
      env_actor_type (build_envelope this event) = ''user'') \<and>
   (actor_id event = None \<or> actor_id event = Some [] \<longrightarrow>
      env_actor_id (build_envelope this event) = ''anonymous'' \<and>
      env_actor_type (build_envelope this event) = ''system'') \<and>
   (actor_id event = actor_id event' \<longrightarrow>
      env_actor_id (build_envelope this event) = env_actor_id (build_envelope this' event') \<and>
      env_actor_type (build_envelope this event) = env_actor_type (build_envelope this' event'))"
  by (auto simp add: build_envelope_def or_else_simps truthy_simps)

theorem actor_derivation_witness:
  "env_actor_id (build_envelope default_client (pageView_event ''/home'' (Some ''u1''))) = ''u1'' \<and>
   env_actor_type (build_envelope default_client (pageView_event ''/home'' (Some ''u1''))) = ''user'' \<and>
   env_actor_id (build_envelope default_client (pageView_event ''/home'' None)) = ''anonymous'' \<and>
   env_actor_type (build_envelope default_client (pageView_event ''/home'' None)) = ''system''"
  using actor_derivation [where event = "pageView_event ''/home'' (Some ''u1'')" and a = "''u1''"
      and this = default_client and event' = "pageView_event ''/home'' (Some ''u1'')"
      and this' = default_client]
    actor_derivation [where event = "pageView_event ''/home'' None" and a = "''u1''"
      and this = default_client and event' = "pageView_event ''/home'' None"
      and this' = default_client]
  by (simp add: pageView_event_def)

text \<open>
  C1 as stated fails when \<^verbatim>\<open>actor_id\<close> is present and empty, as in
  \<^verbatim>\<open>logPageView('/home', '')\<close>: the envelope's \<^verbatim>\<open>actor_id\<close> is not the supplied empty
  string and its \<^verbatim>\<open>actor_type\<close> is not "user".
\<close>

theorem actor_empty_counterexample:
  "actor_id (pageView_event ''/home'' (Some [])) = Some [] \<and>
   env_actor_id (build_envelope default_client (pageView_event ''/home'' (Some []))) = ''anonymous'' \<and>
   env_actor_id (build_envelope default_client (pageView_event ''/home'' (Some []))) \<noteq> [] \<and>
   env_actor_type (build_envelope default_client (pageView_event ''/home'' (Some []))) = ''system'' \<and>
   env_actor_type (build_envelope default_client (pageView_event ''/home'' (Some []))) \<noteq> ''user''"
  by (simp add: pageView_event_def build_envelope_def or_else_simps truthy_simps)

text \<open>
  C3 (as amended). A request lacking \<^verbatim>\<open>category\<close>, \<^verbatim>\<open>severity\<close>, \<^verbatim>\<open>outcome\<close> or
  \<^verbatim>\<open>payload\<close> gets \<^verbatim>\<open>event_category\<close> "general", \<^verbatim>\<open>severity\<close> "info", \<^verbatim>\<open>outcome\<close>
  "success" and the empty payload, respectively. A \<^verbatim>\<open>category\<close> or \<^verbatim>\<open>severity\<close> that is
  present and not the empty string, and an \<^verbatim>\<open>outcome\<close> or \<^verbatim>\<open>payload\<close> that is present,
  is carried into the envelope as supplied.
\<close>

theorem envelope_defaults:
  "(category event = None \<longrightarrow> env_event_category (build_envelope this event) = ''general'') \<and>
   (severity event = None \<longrightarrow> env_severity (build_envelope this event) = ''info'') \<and>
   (outcome event = None \<longrightarrow> env_outcome (build_envelope this event) = Success) \<and>
   (payload event = None \<longrightarrow> env_payload (build_envelope this event) = []) \<and>
   (category event = Some c \<and> c \<noteq> [] \<longrightarrow> env_event_category (build_envelope this event) = c) \<and>
   (severity event = Some s \<and> s \<noteq> [] \<longrightarrow> env_severity (build_envelope this event) = s) \<and>
   (outcome event = Some oc \<longrightarrow> env_outcome (build_envelope this event) = oc) \<and>
   (payload event = Some kvs \<longrightarrow> env_payload (build_envelope this event) = kvs)"
  by (simp add: build_envelope_def or_else_simps)

theorem envelope_defaults_witness:
  "env_event_category (build_envelope default_client (apiCall_event ''/foo'' ''GET'' 200 None))
     = ''general'' \<and>
   env_severity (build_envelope default_client (apiCall_event ''/foo'' ''GET'' 200 None))
     = ''info'' \<and>
   env_outcome (build_envelope default_client (pageView_event ''/home'' None)) = Success \<and>
   env_payload (build_envelope default_client (pageView_event ''/home'' None)) = [] \<and>
   env_event_category (build_envelope default_client (login_event ''u1'' False None)) = ''auth'' \<and>
   env_severity (build_envelope default_client (login_event ''u1'' False None)) = ''warning'' \<and>
   env_outcome (build_envelope default_client (login_event ''u1'' False None)) = Failure \<and>
   env_payload (build_envelope default_client (login_event ''u1'' False None))
     = [(''ip'', JUndefined)]"
  using envelope_defaults [where event = "apiCall_event ''/foo'' ''GET'' 200 None"
      and this = default_client and c = "''auth''" and s = "''warning''" and oc = Failure
      and kvs = "[(''status_code'', JNum 200)]"]
    envelope_defaults [where event = "pageView_event ''/home'' None"
      and this = default_client and c = "''general''" and s = "''warning''" and oc = Failure
      and kvs = "[(''ip'', JUndefined)]"]
    envelope_defaults [where event = "login_event ''u1'' False None"
      and this = default_client and c = "''auth''" and s = "''warning''" and oc = Failure
      and kvs = "[(''ip'', JUndefined)]"]
  by (simp add: apiCall_event_def pageView_event_def login_event_def opt_string_def)

text \<open>
  C3 as stated fails for a \<^verbatim>\<open>category\<close> that is present and empty: the envelope does not
  carry the supplied value but the default.
\<close>

theorem category_empty_counterexample:
  "category
     \<lparr> event_type = ''user.save'', action = ''save'', actor_id = Some ''u1'',
       resource_type = None, resource_id = None, outcome = None,
       category = Some [], severity = None, payload = None \<rparr> = Some [] \<and>
   env_event_category (build_envelope default_client
     \<lparr> event_type = ''user.save'', action = ''save'', actor_id = Some ''u1'',
       resource_type = None, resource_id = None, outcome = None,
       category = Some [], severity = None, payload = None \<rparr>) = ''general'' \<and>
   env_event_category (build_envelope default_client
     \<lparr> event_type = ''user.save'', action = ''save'', actor_id = Some ''u1'',
       resource_type = None, resource_id = None, outcome = None,
       category = Some [], severity = None, payload = None \<rparr>) \<noteq> []"
  by (simp add: build_envelope_def or_else_simps)

text \<open>
  C10. A \<^verbatim>\<open>category\<close> or \<^verbatim>\<open>severity\<close> that is present but the empty string is replaced by
  its default, "general" or "info": the envelope is the one built when the property is
  absent.
\<close>

theorem empty_string_defaults:
  "(category event = Some [] \<longrightarrow>
      env_event_category (build_envelope this event) = ''general'' \<and>
      build_envelope this event = build_envelope this (event \<lparr> category := None \<rparr>)) \<and>
   (severity event = Some [] \<longrightarrow>
      env_severity (build_envelope this event) = ''info'' \<and>
      build_envelope this event = build_envelope this (event \<lparr> severity := None \<rparr>))"
  by (simp add: build_envelope_def or_else_simps)

theorem empty_string_defaults_witness:
  "category
     \<lparr> event_type = ''user.save'', action = ''save'', actor_id = Some ''u1'',
       resource_type = None, resource_id = None, outcome = None,
       category = Some [], severity = Some [], payload = None \<rparr> = Some [] \<and>
   severity
     \<lparr> event_type = ''user.save'', action = ''save'', actor_id = Some ''u1'',
       resource_type = None, resource_id = None, outcome = None,
       category = Some [], severity = Some [], payload = None \<rparr> = Some [] \<and>
   env_event_category (build_envelope default_client
     \<lparr> event_type = ''user.save'', action = ''save'', actor_id = Some ''u1'',
       resource_type = None, resource_id = None, outcome = None,
       category = Some [], severity = Some [], payload = None \<rparr>) = ''general'' \<and>
   env_severity (build_envelope default_client
     \<lparr> event_type = ''user.save'', action = ''save'', actor_id = Some ''u1'',
       resource_type = None, resource_id = None, outcome = None,
       category = Some [], severity = Some [], payload = None \<rparr>) = ''info''"
  using empty_string_defaults [where this = default_client and event =
      "\<lparr> event_type = ''user.save'', action = ''save'', actor_id = Some ''u1'',
         resource_type = None, resource_id = None, outcome = None,
         category = Some [], severity = Some [], payload = None \<rparr>"]
  by (simp add: build_envelope_def or_else_simps)

text \<open>
  C8. Two calls of \<^verbatim>\<open>logEvent\<close> with the same request, by clients of the same gateway URL
  and service name, build the same envelope, whatever the clock reads and however the
  network behaves in either call: the envelope, the outcome of its serialisation, and the
  body and URL of every request sent coincide. (The timestamp is no field of the envelope;
  it travels in a header only.)
\<close>

theorem envelope_deterministic:
  assumes "gatewayUrl this = gatewayUrl this'" and "serviceName this = serviceName this'"
  shows "build_envelope this event = build_envelope this' event \<and>
    JSON_stringify (envelope_object (build_envelope this event)) =
      JSON_stringify (envelope_object (build_envelope this' event)) \<and>
    map body (sent (fst (logEvent this p event))) =
      map body (sent (fst (logEvent this' p' event))) \<and>
    map url (sent (fst (logEvent this p event))) =
      map url (sent (fst (logEvent this' p' event)))"
proof -
  from assms have env: "build_envelope this event = build_envelope this' event"
    by (simp add: build_envelope_def)
  show ?thesis using assms
    by (simp add: env logEvent_def Let_def audit_request_def split: sum.splits)
qed

theorem envelope_deterministic_witness:
  "gatewayUrl default_client = gatewayUrl (new_AuditClient (\<lambda>name. None)) \<and>
   serviceName default_client = serviceName (new_AuditClient (\<lambda>name. None)) \<and>
   build_envelope default_client (login_event ''u1'' True (Some ''10.0.0.7'')) =
     build_envelope (new_AuditClient (\<lambda>name. None)) (login_event ''u1'' True (Some ''10.0.0.7'')) \<and>
   map body (sent (fst (logEvent default_client (at_noon gateway_201)
       (login_event ''u1'' True (Some ''10.0.0.7''))))) =
     map body (sent (fst (logEvent (new_AuditClient (\<lambda>name. None))
       \<lparr> now = ''2031-05-06T07:08:09.123Z'', fetch = gateway_unreachable \<rparr>
       (login_event ''u1'' True (Some ''10.0.0.7'')))))"
proof -
  have g: "gatewayUrl default_client = gatewayUrl (new_AuditClient (\<lambda>name. None))"
    by (simp add: new_AuditClient_default)
  have s: "serviceName default_client = serviceName (new_AuditClient (\<lambda>name. None))"
    by (simp add: new_AuditClient_default)
  show ?thesis
    using g s envelope_deterministic [OF g s, where event = "login_event ''u1'' True (Some ''10.0.0.7'')"
        and p = "at_noon gateway_201"
        and p' = "\<lparr> now = ''2031-05-06T07:08:09.123Z'', fetch = gateway_unreachable \<rparr>"]
    by simp
qed

subsection \<open>Transmission\<close>

text \<open>
  C2 (the code departs from it). \<^verbatim>\<open>JSON.stringify\<close> is called on line 34, before the
  \<^verbatim>\<open>try\<close> block of line 48 is entered. With a payload that holds a BigInt, as in
  \<^verbatim>\<open>logUserAction('export', 'u1', { rows: 10n })\<close>, the TypeError of the serialisation is
  not caught: nothing is sent, nothing is reported, and the promise of \<^verbatim>\<open>logEvent\<close> and of
  \<^verbatim>\<open>logUserAction\<close> rejects instead of resolving to \<^verbatim>\<open>false\<close>, wherever the call is made.
\<close>

theorem logEvent_rejects_on_bigint:
  "logEvent this p (userAction_event ''export'' ''u1'' (Some [(''rows'', JBigInt 10)])) =
     ([], Inl (TypeError ''Do not know how to serialize a BigInt'')) \<and>
   logUserAction this p ''export'' ''u1'' (Some [(''rows'', JBigInt 10)]) =
     ([], Inl (TypeError ''Do not know how to serialize a BigInt''))"
  by (simp add: logUserAction_def logEvent_unserializable has_bigint_envelope
      userAction_event_def)

text \<open>
  C4. When \<^verbatim>\<open>logEvent\<close> has handed a request to \<^verbatim>\<open>fetch\<close> and the network answers it with
  a response, the promise resolves to \<^verbatim>\<open>true\<close> if the status of the response is in
  200..299 and to \<^verbatim>\<open>false\<close> otherwise. The result is a function of the status: the body of
  the response plays no part.
\<close>

theorem logEvent_status:
  assumes "Fetch request \<in> set (fst (logEvent this p event))"
    and "fetch p request = Inr response"
  shows "snd (logEvent this p event) = Inr (200 \<le> status response \<and> status response \<le> 299)"
proof (cases "has_bigint (envelope_object (build_envelope this event))")
  case True
  with assms(1) show ?thesis by (simp add: logEvent_unserializable)
next
  case False
  let ?r = "audit_request this (now p) (to_json (envelope_object (build_envelope this event)))"
  from False assms(1) have "request = ?r"
    by (auto simp add: logEvent_serializable Let_def split: sum.splits)
  with False assms(2) show ?thesis
    by (simp add: logEvent_serializable Let_def ok_def)
qed

theorem logEvent_status_witness:
  "Fetch (audit_request default_client (now (at_noon gateway_201))
       (to_json (envelope_object (build_envelope default_client (pageView_event ''/home'' None)))))
     \<in> set (fst (logEvent default_client (at_noon gateway_201) (pageView_event ''/home'' None))) \<and>
   snd (logEvent default_client (at_noon gateway_201) (pageView_event ''/home'' None)) = Inr True \<and>
   Fetch (audit_request default_client (now (at_noon gateway_500))
       (to_json (envelope_object (build_envelope default_client (pageView_event ''/home'' None)))))
     \<in> set (fst (logEvent default_client (at_noon gateway_500) (pageView_event ''/home'' None))) \<and>
   snd (logEvent default_client (at_noon gateway_500) (pageView_event ''/home'' None)) = Inr False"
proof -
  let ?e = "pageView_event ''/home'' None"
  let ?b = "to_json (envelope_object (build_envelope default_client ?e))"
  have ser: "\<not> has_bigint (envelope_object (build_envelope default_client ?e))"
    by (simp add: has_bigint_envelope pageView_event_def)
  have f1: "Fetch (audit_request default_client (now (at_noon gateway_201)) ?b)
      \<in> set (fst (logEvent default_client (at_noon gateway_201) ?e))"
    by (simp add: logEvent_serializable [OF ser] Let_def at_noon_def gateway_201_def)
  have r1: "fetch (at_noon gateway_201) (audit_request default_client (now (at_noon gateway_201)) ?b)
      = Inr \<lparr> status = 201, response_body = [] \<rparr>"
    by (simp add: at_noon_def gateway_201_def)
  have f2: "Fetch (audit_request default_client (now (at_noon gateway_500)) ?b)
      \<in> set (fst (logEvent default_client (at_noon gateway_500) ?e))"
    by (simp add: logEvent_serializable [OF ser] Let_def at_noon_def gateway_500_def)
  have r2: "fetch (at_noon gateway_500) (audit_request default_client (now (at_noon gateway_500)) ?b)
      = Inr \<lparr> status = 500, response_body = [] \<rparr>"
    by (simp add: at_noon_def gateway_500_def)
  show ?thesis
    using f1 f2 logEvent_status [OF f1 r1] logEvent_status [OF f2 r2] by simp
qed

text \<open>
  C7 (as amended). For every request whose envelope \<^verbatim>\<open>JSON.stringify\<close> serialises,
  \<^verbatim>\<open>logEvent\<close> hands exactly one request to \<^verbatim>\<open>fetch\<close>: a POST to the gateway URL followed by
  \<^verbatim>\<open>/api/v1/audit/events\<close>, with the headers \<^verbatim>\<open>Content-Type: application/json\<close>,
  \<^verbatim>\<open>X-Service-Name\<close> (the configured service name) and \<^verbatim>\<open>X-Service-Timestamp\<close> (the
  timestamp read at call time), and the serialised envelope as its body. When the
  serialisation throws, no request is sent.
\<close>

theorem logEvent_posts_once:
  "(JSON_stringify (envelope_object (build_envelope this event)) = Inr b \<longrightarrow>
      sent (fst (logEvent this p event)) =
        [\<lparr> url = gatewayUrl this @ ''/api/v1/audit/events'',
           http_method = ''POST'',
           headers = [(''Content-Type'', ''application/json''),
                      (''X-Service-Name'', serviceName this),
                      (''X-Service-Timestamp'', now p)],
           body = b \<rparr>]) \<and>
   (JSON_stringify (envelope_object (build_envelope this event)) = Inl err \<longrightarrow>
      sent (fst (logEvent this p event)) = [])"
  by (simp add: logEvent_def Let_def audit_request_def split: sum.splits)

theorem logEvent_posts_once_witness:
  "sent (fst (logEvent default_client (at_noon gateway_unreachable) (login_event ''u1'' False None))) =
     [\<lparr> url = ''http://localhost:8000/api/v1/audit/events'',
        http_method = ''POST'',
        headers = [(''Content-Type'', ''application/json''),
                   (''X-Service-Name'', ''smsly-frontend''),
                   (''X-Service-Timestamp'', ''2024-01-01T12:00:00.000Z'')],
        body = Some (JsonObj
          [(''service'', JsonStr ''smsly-frontend''),
           (''event_type'', JsonStr ''auth.login''),
           (''event_category'', JsonStr ''auth''),
           (''severity'', JsonStr ''warning''),
           (''action'', JsonStr ''login''),
           (''actor_id'', JsonStr ''u1''),
           (''actor_type'', JsonStr ''user''),
           (''outcome'', JsonStr ''failure''),
           (''payload'', JsonObj [])]) \<rparr>]"
proof -
  have ser: "JSON_stringify (envelope_object (build_envelope default_client
      (login_event ''u1'' False None))) =
    Inr (Some (JsonObj
          [(''service'', JsonStr ''smsly-frontend''),
           (''event_type'', JsonStr ''auth.login''),
           (''event_category'', JsonStr ''auth''),
           (''severity'', JsonStr ''warning''),
           (''action'', JsonStr ''login''),
           (''actor_id'', JsonStr ''u1''),
           (''actor_type'', JsonStr ''user''),
           (''outcome'', JsonStr ''failure''),
           (''payload'', JsonObj [])]))"
    by (simp add: JSON_stringify_def envelope_object_def build_envelope_def login_event_def
        default_client_def opt_string_def outcome_string_def or_else_simps truthy_simps)
  show ?thesis
    using ser logEvent_posts_once [where this = default_client
        and event = "login_event ''u1'' False None" and p = "at_noon gateway_unreachable"
        and err = "TypeError []"]
    by (simp add: default_client_def at_noon_def)
qed

text \<open>
  C7 as stated fails for a request whose payload holds a BigInt: \<^verbatim>\<open>logEvent\<close> sends no
  request at all.
\<close>

theorem post_counterexample:
  "sent (fst (logEvent default_client (at_noon gateway_201)
      (userAction_event ''export'' ''u1'' (Some [(''rows'', JBigInt 10)])))) = []"
  by (simp add: logEvent_unserializable has_bigint_envelope userAction_event_def)

subsection \<open>Convenience methods\<close>

text \<open>
  C5. \<^verbatim>\<open>logApiCall(endpoint, method, statusCode, userId?)\<close> is \<^verbatim>\<open>logEvent\<close> of the request
  with \<^verbatim>\<open>event_type\<close> "api.call", \<^verbatim>\<open>action\<close> the method, a space and the endpoint,
  \<^verbatim>\<open>actor_id\<close> the user id, \<^verbatim>\<open>resource_type\<close> "api", \<^verbatim>\<open>resource_id\<close> the endpoint, payload
  \<^verbatim>\<open>{status_code: statusCode}\<close>, and \<^verbatim>\<open>outcome\<close> "success" if the status code is below
  400 and "failure" otherwise; category and severity are not set.
\<close>

theorem logApiCall_delegates:
  "logApiCall this p endpoint method statusCode userId =
     logEvent this p
       \<lparr> event_type = ''api.call'',
         action = method @ '' '' @ endpoint,
         actor_id = userId,
         resource_type = Some ''api'',
         resource_id = Some endpoint,
         outcome = Some (if statusCode < 400 then Success else Failure),
         category = None,
         severity = None,
         payload = Some [(''status_code'', JNum statusCode)] \<rparr>"
  by (simp add: logApiCall_def apiCall_event_def)

theorem logApiCall_delegates_witness:
  "logApiCall default_client (at_noon gateway_201) ''/foo'' ''GET'' 404 (Some ''u2'') =
     logEvent default_client (at_noon gateway_201)
       \<lparr> event_type = ''api.call'',
         action = ''GET /foo'',
         actor_id = Some ''u2'',
         resource_type = Some ''api'',
         resource_id = Some ''/foo'',
         outcome = Some Failure,
         category = None,
         severity = None,
         payload = Some [(''status_code'', JNum 404)] \<rparr> \<and>
   logApiCall default_client (at_noon gateway_201) ''/foo'' ''GET'' 200 None =
     logEvent default_client (at_noon gateway_201)
       \<lparr> event_type = ''api.call'',
         action = ''GET /foo'',
         actor_id = None,
         resource_type = Some ''api'',
         resource_id = Some ''/foo'',
         outcome = Some Success,
         category = None,
         severity = None,
         payload = Some [(''status_code'', JNum 200)] \<rparr>"
  using logApiCall_delegates [of default_client "at_noon gateway_201" "''/foo''" "''GET''" 404
      "Some ''u2''"]
    logApiCall_delegates [of default_client "at_noon gateway_201" "''/foo''" "''GET''" 200 None]
  by simp

text \<open>
  C6. \<^verbatim>\<open>logLogin(userId, success, ip?)\<close> is \<^verbatim>\<open>logEvent\<close> of the request with \<^verbatim>\<open>event_type\<close>
  "auth.login", category "auth", \<^verbatim>\<open>actor_id\<close> the user id, payload \<^verbatim>\<open>{ip}\<close>, and
  \<^verbatim>\<open>outcome\<close> "success" with severity "info" when the flag is true, \<^verbatim>\<open>outcome\<close> "failure"
  with severity "warning" when it is false.
\<close>

theorem logLogin_delegates:
  "logLogin this p userId success ip =
     logEvent this p
       \<lparr> event_type = ''auth.login'',
         action = ''login'',
         actor_id = Some userId,
         resource_type = None,
         resource_id = None,
         outcome = Some (if success then Success else Failure),
         category = Some ''auth'',
         severity = Some (if success then ''info'' else ''warning''),
         payload = Some [(''ip'', case ip of None \<Rightarrow> JUndefined | Some a \<Rightarrow> JStr a)] \<rparr>"
  by (simp add: logLogin_def login_event_def opt_string_def)

theorem logLogin_delegates_witness:
  "logLogin default_client (at_noon gateway_201) ''u1'' True (Some ''10.0.0.7'') =
     logEvent default_client (at_noon gateway_201)
       \<lparr> event_type = ''auth.login'', action = ''login'', actor_id = Some ''u1'',
         resource_type = None, resource_id = None, outcome = Some Success,
         category = Some ''auth'', severity = Some ''info'',
         payload = Some [(''ip'', JStr ''10.0.0.7'')] \<rparr> \<and>
   logLogin default_client (at_noon gateway_201) ''u1'' False None =
     logEvent default_client (at_noon gateway_201)
       \<lparr> event_type = ''auth.login'', action = ''login'', actor_id = Some ''u1'',
         resource_type = None, resource_id = None, outcome = Some Failure,
         category = Some ''auth'', severity = Some ''warning'',
         payload = Some [(''ip'', JUndefined)] \<rparr>"
  using logLogin_delegates [of default_client "at_noon gateway_201" "''u1''" True "Some ''10.0.0.7''"]
    logLogin_delegates [of default_client "at_noon gateway_201" "''u1''" False None]
  by simp

text \<open>
  C9. \<^verbatim>\<open>logPageView(page, userId?)\<close> is \<^verbatim>\<open>logEvent\<close> of the request with \<^verbatim>\<open>resource_type\<close>
  "page" and \<^verbatim>\<open>resource_id\<close> the page, \<^verbatim>\<open>event_type\<close> "page.view", \<^verbatim>\<open>action\<close> "view",
  category "general" and \<^verbatim>\<open>actor_id\<close> the user id; outcome, severity and payload are not
  set.
\<close>

theorem logPageView_delegates:
  "logPageView this p page userId =
     logEvent this p
       \<lparr> event_type = ''page.view'',
         action = ''view'',
         actor_id = userId,
         resource_type = Some ''page'',
         resource_id = Some page,
         outcome = None,
         category = Some ''general'',
         severity = None,
         payload = None \<rparr>"
  by (simp add: logPageView_def pageView_event_def)

theorem logPageView_delegates_witness:
  "logPageView default_client (at_noon gateway_201) ''/home'' (Some ''u1'') =
     logEvent default_client (at_noon gateway_201)
       \<lparr> event_type = ''page.view'', action = ''view'', actor_id = Some ''u1'',
         resource_type = Some ''page'', resource_id = Some ''/home'', outcome = None,
         category = Some ''general'', severity = None, payload = None \<rparr>"
  using logPageView_delegates [of default_client "at_noon gateway_201" "''/home''" "Some ''u1''"]
  by simp

end
